theory Spec2Isabelle
  imports Main "HOL-Library.Word" "HOL-Library.Sublist"
begin

section \<open>JavaScript values used by the two components\<close>

text \<open>
  A JavaScript string is a sequence of UTF-16 code units. String literals of the source are
  written with \<open>lit\<close>, which maps each ASCII character to its code unit.
\<close>

type_synonym jstring = "16 word list"

definition lit :: "string \<Rightarrow> jstring" where
  "lit s = map of_char s"

text \<open>
  \<open>String.prototype.trim\<close> removes the code units of WhiteSpace and LineTerminator
  (ECMAScript 12.2, 12.3) from both ends: TAB, LF, VT, FF, CR, SP, NBSP, U+1680,
  U+2000..U+200A, LS, PS, U+202F, U+205F, U+3000 and the BOM U+FEFF.
\<close>

definition is_whitespace :: "16 word \<Rightarrow> bool" where
  "is_whitespace c \<longleftrightarrow>
     c \<in> set [0x09, 0x0A, 0x0B, 0x0C, 0x0D, 0x20, 0xA0, 0x1680,
               0x2028, 0x2029, 0x202F, 0x205F, 0x3000, 0xFEFF]
     \<or> (0x2000 \<le> c \<and> c \<le> 0x200A)"

definition trim :: "jstring \<Rightarrow> jstring" where
  "trim s = rev (dropWhile is_whitespace (rev (dropWhile is_whitespace s)))"

text \<open>
  An optional string property of an object: \<open>None\<close> is \<open>undefined\<close> (the property is
  absent). \<open>truthy\<close> is JavaScript's ToBoolean on such a value: \<open>undefined\<close> and the
  empty string are falsy. \<open>x || d\<close> is \<open>or_else x d\<close>; a JSX child \<open>{x}\<close> renders
  \<open>undefined\<close> as nothing, which is \<open>render_text\<close>.
\<close>

definition truthy :: "jstring option \<Rightarrow> bool" where
  "truthy x = (case x of None \<Rightarrow> False | Some s \<Rightarrow> s \<noteq> [])"

definition or_else :: "jstring option \<Rightarrow> jstring \<Rightarrow> jstring" where
  "or_else x d = (if truthy x then the x else d)"

definition render_text :: "jstring option \<Rightarrow> jstring" where
  "render_text x = (case x of None \<Rightarrow> [] | Some s \<Rightarrow> s)"

text \<open>
  \<open>Number.prototype.toString\<close> on an integral time value such as \<open>Date.now()\<close>:
  the decimal digits, most significant first, with a leading minus sign below zero.
  Time values are integers of magnitude at most 8.64e15, which a JavaScript number holds
  exactly, so the clock reading is an \<open>int\<close> and \<open>Date.now() + 1\<close> is exact.
\<close>

definition digit :: "nat \<Rightarrow> 16 word" where
  "digit d = of_nat (48 + d)"

fun digits :: "nat \<Rightarrow> jstring" where
  "digits n = (if n < 10 then [digit n] else digits (n div 10) @ [digit (n mod 10)])"

declare digits.simps [simp del]

definition toString :: "int \<Rightarrow> jstring" where
  "toString i = (if i < 0 then 0x2D # digits (nat (- i)) else digits (nat i))"

section \<open>The outcome of a \<open>fetch\<close> followed by \<open>response.json()\<close>\<close>

text \<open>
  \<open>await fetch(...)\<close> either rejects (network failure) or resolves to a response with an
  \<open>ok\<close> flag. \<open>await response.json()\<close> rejects when the body is not JSON, yields
  \<open>null\<close>, or yields an object of the expected shape, whose fields are all optional.
  Bodies of any other shape (a number, an array, a field of the wrong type) are outside
  the model. The errors are the ones the two \<open>try\<close> blocks can throw.
\<close>

datatype 'a json_result = JsonReject | JsonNull | JsonValue 'a

datatype 'a fetch_outcome = Rejected | Resolved (ok: bool) (json: "'a json_result")

datatype js_error =
    NetworkFailure
  | Error jstring
  | SyntaxError
  | TypeError

section \<open>Chat.tsx: the conversation controller\<close>

datatype role = User | Assistant

record source_ref =
  object_id :: jstring
  collection :: jstring

record message =
  id_m :: jstring
  role :: role
  content :: jstring
  sources :: "source_ref list option"

text \<open>The three \<open>useState\<close> cells of the component.\<close>

record chat_state =
  messages :: "message list"
  input :: jstring
  isLoading :: bool

text \<open>The parsed body of a chat response, \<open>data\<close>, with its two optional fields.\<close>

record chat_data =
  response :: "jstring option"
  sources_d :: "source_ref list option"

text \<open>An entry of the request body: \<open>{role: msg.role, content: msg.content}\<close>.\<close>

record wire_message =
  role_w :: role
  content_w :: jstring

record chat_request =
  url :: jstring
  http_method :: jstring
  body_messages :: "wire_message list"

definition to_wire :: "message \<Rightarrow> wire_message" where
  "to_wire msg = \<lparr>role_w = role msg, content_w = content msg\<rparr>"

definition userMessage :: "int \<Rightarrow> chat_state \<Rightarrow> message" where
  "userMessage now s =
     \<lparr>id_m = toString now, role = User, content = trim (input s), sources = None\<rparr>"

text \<open>
  \<open>handleSubmit\<close> up to its first \<open>await\<close> (lines 33 to 61), run at clock reading
  \<open>now\<close>: the guard, the three state updates and the request that is sent. The result is
  the new state and the list of requests issued. The handler belongs to the latest
  render, so the \<open>messages\<close>, \<open>input\<close> and \<open>isLoading\<close> it reads are the current
  state \<open>s\<close>.
\<close>

definition handleSubmit_begin :: "int \<Rightarrow> chat_state \<Rightarrow> chat_state \<times> chat_request list" where
  "handleSubmit_begin now s =
     (if trim (input s) = [] \<or> isLoading s then (s, [])
      else
        let newMessages = messages s @ [userMessage now s] in
        (s\<lparr>messages := newMessages, input := [], isLoading := True\<rparr>,
         [\<lparr>url = lit ''http://127.0.0.1:8000/api/chat'',
           http_method = lit ''POST'',
           body_messages = map to_wire newMessages\<rparr>]))"

text \<open>
  The body of the \<open>try\<close> block after the request has been sent (lines 63 to 74), at clock
  reading \<open>now\<close>: \<open>Inl\<close> is a thrown error, \<open>Inr\<close> the assistant message built.
  Reading \<open>data.response\<close> of \<open>null\<close> throws a TypeError.
\<close>

definition fallback_answer :: jstring where
  "fallback_answer = lit ''I received your message but got no answer.''"

definition apology :: jstring where
  "apology = lit ''Sorry, something went wrong. Please try again.''"

fun try_block :: "int \<Rightarrow> chat_data fetch_outcome \<Rightarrow> js_error + message" where
  "try_block now Rejected = Inl NetworkFailure"
| "try_block now (Resolved False j) = Inl (Error (lit ''Failed to fetch response''))"
| "try_block now (Resolved True JsonReject) = Inl SyntaxError"
| "try_block now (Resolved True JsonNull) = Inl TypeError"
| "try_block now (Resolved True (JsonValue data)) =
     Inr \<lparr>id_m = toString (now + 1), role = Assistant,
          content = or_else (response data) fallback_answer,
          sources = Some (case sources_d data of None \<Rightarrow> [] | Some xs \<Rightarrow> xs)\<rparr>"

definition errorMessage :: "int \<Rightarrow> message" where
  "errorMessage now =
     \<lparr>id_m = toString (now + 1), role = Assistant, content = apology, sources = None\<rparr>"

text \<open>
  The continuation of \<open>handleSubmit\<close> once the request has settled (lines 63 to 87). It
  works on the state current at that moment (\<open>setMessages((prev) => ...)\<close>) and returns
  the new state together with what \<open>console.error\<close> was given.
\<close>

definition handleSubmit_resume ::
  "int \<Rightarrow> chat_data fetch_outcome \<Rightarrow> chat_state \<Rightarrow> chat_state \<times> js_error list" where
  "handleSubmit_resume now outcome s =
     (case try_block now outcome of
        Inr assistantMessage \<Rightarrow>
          (s\<lparr>messages := messages s @ [assistantMessage], isLoading := False\<rparr>, [])
      | Inl err \<Rightarrow>
          (s\<lparr>messages := messages s @ [errorMessage now], isLoading := False\<rparr>, [err]))"

text \<open>
  One whole run of \<open>handleSubmit\<close>: submitted at clock reading \<open>t1\<close>, the request
  settling with \<open>outcome\<close> at clock reading \<open>t2\<close>.
\<close>

definition handleSubmit ::
  "int \<Rightarrow> chat_data fetch_outcome \<Rightarrow> int \<Rightarrow> chat_state \<Rightarrow> chat_state \<times> js_error list" where
  "handleSubmit t1 outcome t2 s =
     (case handleSubmit_begin t1 s of
        (s', []) \<Rightarrow> (s', [])
      | (s', _ # _) \<Rightarrow> handleSubmit_resume t2 outcome s')"

subsection \<open>A session: the events that reach the component\<close>

text \<open>
  The component reacts to three events: the input field changes (\<open>onChange\<close> calls
  \<open>setInput\<close>), the form is submitted at some clock reading, and the request in
  flight settles at some clock reading. A session records, beside the component state,
  the requests sent and not yet settled and what was written to the console. A
  \<open>Settle\<close> event without a request in flight cannot occur and changes nothing.
\<close>

datatype event =
    Change jstring
  | Submit int
  | Settle int "chat_data fetch_outcome"

record session =
  ui :: chat_state
  inflight :: "chat_request list"
  console :: "js_error list"

definition initial :: session where
  "initial = \<lparr>ui = \<lparr>messages = [], input = [], isLoading = False\<rparr>,
               inflight = [], console = []\<rparr>"

fun step :: "event \<Rightarrow> session \<Rightarrow> session" where
  "step (Change v) \<sigma> = \<sigma>\<lparr>ui := (ui \<sigma>)\<lparr>input := v\<rparr>\<rparr>"
| "step (Submit now) \<sigma> =
     (case handleSubmit_begin now (ui \<sigma>) of
        (s', reqs) \<Rightarrow> \<sigma>\<lparr>ui := s', inflight := inflight \<sigma> @ reqs\<rparr>)"
| "step (Settle now outcome) \<sigma> =
     (case inflight \<sigma> of
        [] \<Rightarrow> \<sigma>
      | r # rs \<Rightarrow>
          (case handleSubmit_resume now outcome (ui \<sigma>) of
             (s', logged) \<Rightarrow> \<sigma>\<lparr>ui := s', inflight := rs, console := console \<sigma> @ logged\<rparr>))"

fun run :: "event list \<Rightarrow> session \<Rightarrow> session" where
  "run [] \<sigma> = \<sigma>"
| "run (e # es) \<sigma> = run es (step e \<sigma>)"

section \<open>Source.tsx: the source resolver\<close>

record source_data =
  title :: "jstring option"
  date :: "jstring option"
  abstract :: "jstring option"
  pdf_url :: "jstring option"
  chunk_text :: "jstring option"
  pdf_title :: "jstring option"
  pdf_date :: "jstring option"

text \<open>The three \<open>useState\<close> cells of a card, and their initial values.\<close>

record source_state =
  data :: "source_data option"
  loading :: bool
  error :: bool

definition source_initial :: source_state where
  "source_initial = \<lparr>data = None, loading = True, error = False\<rparr>"

text \<open>
  The \<open>try\<close> block of \<open>fetchSource\<close> (lines 28 to 38): \<open>Inl\<close> is a thrown error,
  \<open>Inr\<close> the value handed to \<open>setData\<close> (\<open>None\<close> for \<open>null\<close>).
\<close>

fun fetchSource_try :: "source_data fetch_outcome \<Rightarrow> js_error + source_data option" where
  "fetchSource_try Rejected = Inl NetworkFailure"
| "fetchSource_try (Resolved False j) = Inl (Error (lit ''Failed to fetch source''))"
| "fetchSource_try (Resolved True JsonReject) = Inl SyntaxError"
| "fetchSource_try (Resolved True JsonNull) = Inr None"
| "fetchSource_try (Resolved True (JsonValue d)) = Inr (Some d)"

text \<open>
  \<open>fetchSource\<close> once its request has settled (lines 36 to 44): the new state and what
  \<open>console.error\<close> was given.
\<close>

definition fetchSource :: "source_data fetch_outcome \<Rightarrow> source_state \<Rightarrow> source_state \<times> js_error list" where
  "fetchSource outcome st =
     (case fetchSource_try outcome of
        Inr result \<Rightarrow> (st\<lparr>data := result, loading := False\<rparr>, [])
      | Inl err \<Rightarrow> (st\<lparr>error := True, loading := False\<rparr>, [err]))"

text \<open>The display values of lines 67 to 71, for the collection \<open>coll\<close> of the card.\<close>

definition isChunk :: "jstring \<Rightarrow> bool" where
  "isChunk coll \<longleftrightarrow> coll = lit ''PDFchunks1''"

definition sel_title :: "jstring \<Rightarrow> source_data \<Rightarrow> jstring option" where
  "sel_title coll d = (if isChunk coll then pdf_title d else title d)"

definition sel_date :: "jstring \<Rightarrow> source_data \<Rightarrow> jstring option" where
  "sel_date coll d = (if isChunk coll then pdf_date d else date d)"

definition sel_content :: "jstring \<Rightarrow> source_data \<Rightarrow> jstring option" where
  "sel_content coll d = (if isChunk coll then chunk_text d else abstract d)"

definition sel_url :: "source_data \<Rightarrow> jstring option" where
  "sel_url d = pdf_url d"

text \<open>
  \<open>x && <element showing x>\<close>: the element is rendered, with \<open>x\<close> in it, when \<open>x\<close> is
  truthy, and nothing is rendered otherwise.
\<close>

definition when_truthy :: "jstring option \<Rightarrow> jstring option" where
  "when_truthy x = (if truthy x then x else None)"

text \<open>
  What the loaded card shows (lines 73 to 108): the label, the date line if any, the
  \<open>title\<close> attribute and the text of the heading, the body paragraph, and the target of
  the link if any.
\<close>

record card =
  label :: jstring
  date_line :: "jstring option"
  title_attr :: "jstring option"
  heading :: jstring
  body :: jstring
  link_href :: "jstring option"

definition render_card :: "jstring \<Rightarrow> source_data \<Rightarrow> card" where
  "render_card coll d =
     \<lparr>label = (if isChunk coll then lit ''Excerpt'' else lit ''Document''),
      date_line = when_truthy (sel_date coll d),
      title_attr = sel_title coll d,
      heading = or_else (sel_title coll d) (lit ''Untitled Document''),
      body = render_text (sel_content coll d),
      link_href = when_truthy (sel_url d)\<rparr>"

datatype view = Placeholder | Banner jstring | Card card

definition render :: "jstring \<Rightarrow> source_state \<Rightarrow> view" where
  "render coll st =
     (if loading st then Placeholder
      else if error st \<or> data st = None then Banner (lit ''Failed to load source'')
      else Card (render_card coll (the (data st))))"

section \<open>Properties of the conversation controller\<close>

lemma trim_empty_iff: "trim s = [] \<longleftrightarrow> (\<forall>c\<in>set s. is_whitespace c)"
proof
  assume "trim s = []"
  then have rest: "\<forall>c\<in>set (dropWhile is_whitespace s). is_whitespace c"
    by (simp add: trim_def)
  have "dropWhile is_whitespace s = []"
  proof (cases "dropWhile is_whitespace s")
    case Nil
    then show ?thesis .
  next
    case (Cons c cs)
    then have "\<not> is_whitespace c"
      using hd_dropWhile [of is_whitespace s] by simp
    with rest Cons show ?thesis by simp
  qed
  then show "\<forall>c\<in>set s. is_whitespace c"
    by simp
next
  assume "\<forall>c\<in>set s. is_whitespace c"
  then show "trim s = []"
    by (auto simp: trim_def dest: set_dropWhileD)
qed

lemma begin_accepted:
  assumes "\<exists>c\<in>set (input s). \<not> is_whitespace c" and "\<not> isLoading s"
  shows "handleSubmit_begin now s =
           (s\<lparr>messages := messages s @ [userMessage now s], input := [], isLoading := True\<rparr>,
            [\<lparr>url = lit ''http://127.0.0.1:8000/api/chat'', http_method = lit ''POST'',
              body_messages = map to_wire (messages s @ [userMessage now s])\<rparr>])"
proof -
  from assms(1) have "trim (input s) \<noteq> []"
    by (simp add: trim_empty_iff)
  with assms(2) show ?thesis
    by (simp add: handleSubmit_begin_def Let_def)
qed

lemma begin_rejected:
  assumes "(\<forall>c\<in>set (input s). is_whitespace c) \<or> isLoading s"
  shows "handleSubmit_begin now s = (s, [])"
proof -
  from assms have "trim (input s) = [] \<or> isLoading s"
    by (simp add: trim_empty_iff)
  then show ?thesis
    by (simp add: handleSubmit_begin_def)
qed

lemma resume_messages:
  "messages (fst (handleSubmit_resume now outcome s)) =
     messages s @ [case try_block now outcome of Inr m \<Rightarrow> m | Inl err \<Rightarrow> errorMessage now]"
  by (simp add: handleSubmit_resume_def split: sum.splits)

lemma resume_isLoading: "isLoading (fst (handleSubmit_resume now outcome s)) = False"
  by (simp add: handleSubmit_resume_def split: sum.splits)

lemma try_block_role: "try_block now outcome = Inr m \<Longrightarrow> role m = Assistant"
  by (induction now outcome rule: try_block.induct) auto

lemma begin_messages:
  "messages (fst (handleSubmit_begin now s)) = messages s
   \<or> messages (fst (handleSubmit_begin now s)) = messages s @ [userMessage now s]"
  by (simp add: handleSubmit_begin_def Let_def)

lemma step_messages:
  "messages (ui (step e \<sigma>)) = messages (ui \<sigma>)
   \<or> (\<exists>m. messages (ui (step e \<sigma>)) = messages (ui \<sigma>) @ [m])"
proof (cases e)
  case (Change v)
  then show ?thesis by simp
next
  case (Submit now)
  obtain s' reqs where b: "handleSubmit_begin now (ui \<sigma>) = (s', reqs)"
    by (cases "handleSubmit_begin now (ui \<sigma>)")
  with begin_messages [of now "ui \<sigma>"] Submit show ?thesis
    by auto
next
  case (Settle now outcome)
  show ?thesis
  proof (cases "inflight \<sigma>")
    case Nil
    with Settle show ?thesis by simp
  next
    case (Cons r rs)
    obtain s' logged where b: "handleSubmit_resume now outcome (ui \<sigma>) = (s', logged)"
      by (cases "handleSubmit_resume now outcome (ui \<sigma>)")
    with resume_messages [of now outcome "ui \<sigma>"] Settle Cons show ?thesis
      by auto
  qed
qed

lemma step_prefix: "prefix (messages (ui \<sigma>)) (messages (ui (step e \<sigma>)))"
  using step_messages [of e \<sigma>] by (auto simp: prefix_def)

lemma run_prefix: "prefix (messages (ui \<sigma>)) (messages (ui (run es \<sigma>)))"
proof (induction es arbitrary: \<sigma>)
  case Nil
  show ?case by simp
next
  case (Cons e es)
  have "prefix (messages (ui \<sigma>)) (messages (ui (step e \<sigma>)))"
    by (rule step_prefix)
  also have "prefix (messages (ui (step e \<sigma>))) (messages (ui (run es (step e \<sigma>))))"
    by (rule Cons.IH)
  finally show ?case by simp
qed

text \<open>
  Claim C5. Whenever the input text is empty or consists of whitespace only, or the busy
  flag is set, submitting does nothing: the state (message list, input field, busy flag)
  is returned as it was and no request is sent. This holds for the first part of
  \<open>handleSubmit\<close>, for a whole run (nothing is logged either), and in a session, where
  the requests in flight stay the same.
\<close>

theorem rejected_submit_is_noop:
  assumes "(\<forall>c\<in>set (input s). is_whitespace c) \<or> isLoading s"
  shows "handleSubmit_begin now s = (s, [])
         \<and> handleSubmit now outcome t2 s = (s, [])
         \<and> step (Submit now) \<lparr>ui = s, inflight = rs, console = cs\<rparr>
             = \<lparr>ui = s, inflight = rs, console = cs\<rparr>"
  by (simp add: handleSubmit_def begin_rejected [OF assms])

theorem rejected_submit_is_noop_witness:
  "((\<forall>c\<in>set (lit '' ''). is_whitespace c) \<or> False)
   \<and> handleSubmit_begin 1000 \<lparr>messages = [], input = lit '' '', isLoading = False\<rparr>
       = (\<lparr>messages = [], input = lit '' '', isLoading = False\<rparr>, [])
   \<and> handleSubmit 1000 Rejected 1200 \<lparr>messages = [], input = lit '' '', isLoading = False\<rparr>
       = (\<lparr>messages = [], input = lit '' '', isLoading = False\<rparr>, [])"
proof -
  have h: "(\<forall>c\<in>set (input \<lparr>messages = [], input = lit '' '', isLoading = False\<rparr>).
              is_whitespace c)
           \<or> isLoading \<lparr>messages = [], input = lit '' '', isLoading = False\<rparr>"
    by (simp add: lit_def is_whitespace_def)
  show ?thesis
    using rejected_submit_is_noop [OF h, of 1000 Rejected 1200 "[]" "[]"]
    by (simp add: lit_def is_whitespace_def)
qed

text \<open>
  Claim C1. When the input text holds a character that is not whitespace and the busy
  flag is clear, one run of \<open>handleSubmit\<close> (whatever the outcome of the request) leaves
  the message list as the old list followed by the user message, with the trimmed input
  as content, and then one assistant message: the reply built from the response on
  success, the error message otherwise. The length grows by exactly 2.
\<close>

theorem submit_appends_user_then_assistant:
  assumes "\<exists>c\<in>set (input s). \<not> is_whitespace c" and "\<not> isLoading s"
  shows "messages (fst (handleSubmit t1 outcome t2 s))
           = messages s @ [userMessage t1 s,
                           case try_block t2 outcome of Inr m \<Rightarrow> m | Inl err \<Rightarrow> errorMessage t2]
         \<and> role (userMessage t1 s) = User
         \<and> content (userMessage t1 s) = trim (input s)
         \<and> role (case try_block t2 outcome of Inr m \<Rightarrow> m | Inl err \<Rightarrow> errorMessage t2) = Assistant
         \<and> length (messages (fst (handleSubmit t1 outcome t2 s))) = length (messages s) + 2"
proof -
  let ?a = "case try_block t2 outcome of Inr m \<Rightarrow> m | Inl err \<Rightarrow> errorMessage t2"
  have whole: "handleSubmit t1 outcome t2 s =
      handleSubmit_resume t2 outcome
        (s\<lparr>messages := messages s @ [userMessage t1 s], input := [], isLoading := True\<rparr>)"
    by (simp add: handleSubmit_def begin_accepted [OF assms])
  have msgs: "messages (fst (handleSubmit t1 outcome t2 s)) = messages s @ [userMessage t1 s, ?a]"
    by (simp add: whole resume_messages)
  have "role ?a = Assistant"
    by (auto simp: errorMessage_def try_block_role split: sum.splits)
  with msgs show ?thesis
    by (simp add: userMessage_def)
qed

theorem submit_appends_user_then_assistant_witness:
  "(\<exists>c\<in>set (lit '' hi ''). \<not> is_whitespace c)
   \<and> messages (fst (handleSubmit 1000 Rejected 1200
         \<lparr>messages = [], input = lit '' hi '', isLoading = False\<rparr>))
       = [\<lparr>id_m = lit ''1000'', role = User, content = lit ''hi'', sources = None\<rparr>,
          \<lparr>id_m = lit ''1201'', role = Assistant, content = apology, sources = None\<rparr>]"
proof -
  have h1: "\<exists>c\<in>set (input \<lparr>messages = [], input = lit '' hi '', isLoading = False\<rparr>).
              \<not> is_whitespace c"
    by (simp add: lit_def is_whitespace_def)
  have h2: "\<not> isLoading \<lparr>messages = [], input = lit '' hi '', isLoading = False\<rparr>"
    by simp
  have ids: "toString 1000 = lit ''1000''" "toString 1201 = lit ''1201''"
    by (simp_all add: toString_def digits.simps digit_def lit_def)
  have tr: "trim (lit '' hi '') = lit ''hi''"
    by (simp add: trim_def lit_def is_whitespace_def)
  show ?thesis
    using h1 submit_appends_user_then_assistant [OF h1 h2, of 1000 Rejected 1200]
    by (simp add: userMessage_def errorMessage_def ids tr)
qed

text \<open>
  Claim C7. An accepted submit sends exactly one request, and its body is the whole
  message list in order, the new user message last, each message cut down to its role
  and its content.
\<close>

theorem accepted_submit_sends_history:
  assumes "\<exists>c\<in>set (input s). \<not> is_whitespace c" and "\<not> isLoading s"
  shows "snd (handleSubmit_begin now s)
           = [\<lparr>url = lit ''http://127.0.0.1:8000/api/chat'', http_method = lit ''POST'',
               body_messages = map (\<lambda>msg. \<lparr>role_w = role msg, content_w = content msg\<rparr>)
                                   (messages (fst (handleSubmit_begin now s)))\<rparr>]
         \<and> messages (fst (handleSubmit_begin now s)) = messages s @ [userMessage now s]
         \<and> inflight (step (Submit now) \<lparr>ui = s, inflight = [], console = cs\<rparr>)
             = snd (handleSubmit_begin now s)"
proof -
  have "to_wire = (\<lambda>msg. \<lparr>role_w = role msg, content_w = content msg\<rparr>)"
    by (rule ext) (simp add: to_wire_def)
  then show ?thesis
    by (simp add: begin_accepted [OF assms])
qed

theorem accepted_submit_sends_history_witness:
  "(\<exists>c\<in>set (lit ''why?''). \<not> is_whitespace c)
   \<and> snd (handleSubmit_begin 1000
        \<lparr>messages = [\<lparr>id_m = lit ''1'', role = User, content = lit ''hi'', sources = None\<rparr>,
                      \<lparr>id_m = lit ''2'', role = Assistant, content = lit ''yo'', sources = Some []\<rparr>],
          input = lit ''why?'', isLoading = False\<rparr>)
       = [\<lparr>url = lit ''http://127.0.0.1:8000/api/chat'', http_method = lit ''POST'',
           body_messages = [\<lparr>role_w = User, content_w = lit ''hi''\<rparr>,
                            \<lparr>role_w = Assistant, content_w = lit ''yo''\<rparr>,
                            \<lparr>role_w = User, content_w = lit ''why?''\<rparr>]\<rparr>]"
proof -
  let ?s = "\<lparr>messages = [\<lparr>id_m = lit ''1'', role = User, content = lit ''hi'', sources = None\<rparr>,
                      \<lparr>id_m = lit ''2'', role = Assistant, content = lit ''yo'', sources = Some []\<rparr>],
          input = lit ''why?'', isLoading = False\<rparr>"
  have h1: "\<exists>c\<in>set (input ?s). \<not> is_whitespace c"
    by (simp add: lit_def is_whitespace_def)
  have h2: "\<not> isLoading ?s"
    by simp
  have tr: "trim (lit ''why?'') = lit ''why?''"
    by (simp add: trim_def lit_def is_whitespace_def)
  show ?thesis
    using h1 accepted_submit_sends_history [OF h1 h2, of 1000 "[]"]
    by (simp add: userMessage_def tr)
qed

text \<open>
  Claim C6. The message list only grows at its end. Every event of a session leaves the
  list as it was or adds one message after the last one, and after any sequence of events
  the list before is a prefix of the list after: the messages that were there are still
  there, at the same positions and unchanged.
\<close>

theorem messages_append_only:
  "(messages (ui (step e \<sigma>)) = messages (ui \<sigma>)
      \<or> (\<exists>m. messages (ui (step e \<sigma>)) = messages (ui \<sigma>) @ [m]))
   \<and> prefix (messages (ui \<sigma>)) (messages (ui (run es \<sigma>)))
   \<and> take (length (messages (ui \<sigma>))) (messages (ui (run es \<sigma>))) = messages (ui \<sigma>)"
proof -
  have "take (length (messages (ui \<sigma>))) (messages (ui (run es \<sigma>))) = messages (ui \<sigma>)"
    using run_prefix [of \<sigma> es] by (auto simp: prefix_def)
  then show ?thesis
    using step_messages [of e \<sigma>] run_prefix [of \<sigma> es] by blast
qed

lemma or_else_cases:
  "or_else x d = (case x of None \<Rightarrow> d | Some r \<Rightarrow> if r = [] then d else r)"
  by (simp add: or_else_def truthy_def split: option.splits)

lemma when_truthy_cases:
  "when_truthy x = (case x of None \<Rightarrow> None | Some r \<Rightarrow> if r = [] then None else Some r)"
  by (simp add: when_truthy_def truthy_def split: option.splits)

text \<open>
  Claim C3, as amended. A response with a success status makes the continuation append
  exactly one assistant message. When its body is a JSON object, the content is the
  \<open>response\<close> field when that field is present and not the empty string, and the fixed
  placeholder when the field is absent or empty; the sources are the \<open>sources\<close> field,
  or the empty sequence when that field is absent; nothing is logged. When its body
  cannot be read as JSON or is \<open>null\<close>, the message is the apology with no sources, as
  on the failure path, and the error is logged.
\<close>

theorem success_appends_reply:
  "handleSubmit_resume now (Resolved True j) s =
     (case j of
        JsonValue d \<Rightarrow>
          (s\<lparr>messages := messages s @
               [\<lparr>id_m = toString (now + 1), role = Assistant,
                 content = (case response d of
                              None \<Rightarrow> fallback_answer
                            | Some r \<Rightarrow> if r = [] then fallback_answer else r),
                 sources = Some (case sources_d d of None \<Rightarrow> [] | Some xs \<Rightarrow> xs)\<rparr>],
             isLoading := False\<rparr>, [])
      | JsonReject \<Rightarrow>
          (s\<lparr>messages := messages s @
               [\<lparr>id_m = toString (now + 1), role = Assistant, content = apology,
                 sources = None\<rparr>],
             isLoading := False\<rparr>, [SyntaxError])
      | JsonNull \<Rightarrow>
          (s\<lparr>messages := messages s @
               [\<lparr>id_m = toString (now + 1), role = Assistant, content = apology,
                 sources = None\<rparr>],
             isLoading := False\<rparr>, [TypeError]))"
proof (cases j)
  case JsonReject
  then show ?thesis
    by (simp add: handleSubmit_resume_def errorMessage_def)
next
  case JsonNull
  then show ?thesis
    by (simp add: handleSubmit_resume_def errorMessage_def)
next
  case (JsonValue d)
  then show ?thesis
    by (simp add: handleSubmit_resume_def or_else_cases)
qed

theorem success_appends_reply_witness:
  "messages (fst (handleSubmit_resume 1200
      (Resolved True (JsonValue \<lparr>response = Some (lit ''Paris is the capital.''),
         sources_d = Some [\<lparr>object_id = lit ''x1'', collection = lit ''PDFchunks1''\<rparr>]\<rparr>))
      \<lparr>messages = [], input = [], isLoading = True\<rparr>))
   = [\<lparr>id_m = lit ''1201'', role = Assistant, content = lit ''Paris is the capital.'',
       sources = Some [\<lparr>object_id = lit ''x1'', collection = lit ''PDFchunks1''\<rparr>]\<rparr>]
   \<and> handleSubmit_resume 1200 (Resolved True JsonNull)
        \<lparr>messages = [], input = [], isLoading = True\<rparr>
     = (\<lparr>messages = [\<lparr>id_m = lit ''1201'', role = Assistant, content = apology,
                        sources = None\<rparr>],
         input = [], isLoading = False\<rparr>, [TypeError])"
proof -
  have ids: "toString 1201 = lit ''1201''"
    by (simp add: toString_def digits.simps digit_def lit_def)
  have ne: "lit ''Paris is the capital.'' \<noteq> []"
    by (simp add: lit_def)
  have one: "messages (fst (handleSubmit_resume 1200
      (Resolved True (JsonValue \<lparr>response = Some (lit ''Paris is the capital.''),
         sources_d = Some [\<lparr>object_id = lit ''x1'', collection = lit ''PDFchunks1''\<rparr>]\<rparr>))
      \<lparr>messages = [], input = [], isLoading = True\<rparr>))
   = [\<lparr>id_m = lit ''1201'', role = Assistant, content = lit ''Paris is the capital.'',
       sources = Some [\<lparr>object_id = lit ''x1'', collection = lit ''PDFchunks1''\<rparr>]\<rparr>]"
    using success_appends_reply [of 1200
        "JsonValue \<lparr>response = Some (lit ''Paris is the capital.''),
          sources_d = Some [\<lparr>object_id = lit ''x1'', collection = lit ''PDFchunks1''\<rparr>]\<rparr>"
        "\<lparr>messages = [], input = [], isLoading = True\<rparr>"]
    by (simp add: ids ne)
  have two: "handleSubmit_resume 1200 (Resolved True JsonNull)
        \<lparr>messages = [], input = [], isLoading = True\<rparr>
     = (\<lparr>messages = [\<lparr>id_m = lit ''1201'', role = Assistant, content = apology,
                        sources = None\<rparr>],
         input = [], isLoading = False\<rparr>, [TypeError])"
    using success_appends_reply [of 1200 JsonNull
        "\<lparr>messages = [], input = [], isLoading = True\<rparr>"]
    by (simp add: ids)
  from one two show ?thesis
    by (rule conjI)
qed

text \<open>
  The claim as written fails in two ways. For a response whose \<open>response\<close> field is
  present and is the empty string, the appended message carries the placeholder, not
  the field. For a response with a success status and the body \<open>null\<close>, the appended
  message carries the apology and has no sources at all, neither the placeholder nor
  the empty sequence.
\<close>

theorem empty_response_counterexample:
  "response \<lparr>response = Some [], sources_d = None\<rparr> = Some []
   \<and> content (last (messages (fst (handleSubmit_resume 1200
        (Resolved True (JsonValue \<lparr>response = Some [], sources_d = None\<rparr>))
        \<lparr>messages = [], input = [], isLoading = True\<rparr>)))) \<noteq> []
   \<and> content (last (messages (fst (handleSubmit_resume 1200 (Resolved True JsonNull)
        \<lparr>messages = [], input = [], isLoading = True\<rparr>)))) \<noteq> fallback_answer
   \<and> sources (last (messages (fst (handleSubmit_resume 1200 (Resolved True JsonNull)
        \<lparr>messages = [], input = [], isLoading = True\<rparr>)))) \<noteq> Some []"
  by (simp add: handleSubmit_resume_def errorMessage_def or_else_def truthy_def
      fallback_answer_def apology_def lit_def)

text \<open>
  Claim C4. When the request fails, by a network error or by a response whose status is
  not a success, the continuation appends exactly one assistant message whose content is
  the fixed apology and which has no sources. The error goes to the console and nowhere
  else, and the continuation returns normally. The busy flag is clear afterwards, and it
  is clear after every other outcome too.
\<close>

theorem failure_appends_apology:
  assumes "outcome = Rejected \<or> outcome = Resolved False j"
  shows "handleSubmit_resume now outcome s =
           (s\<lparr>messages := messages s @
                [\<lparr>id_m = toString (now + 1), role = Assistant, content = apology, sources = None\<rparr>],
              isLoading := False\<rparr>,
            [if outcome = Rejected then NetworkFailure
             else Error (lit ''Failed to fetch response'')])
         \<and> isLoading (fst (handleSubmit_resume now outcome s)) = False
         \<and> isLoading (fst (handleSubmit_resume now any_outcome s)) = False"
proof -
  from assms have "try_block now outcome =
      Inl (if outcome = Rejected then NetworkFailure else Error (lit ''Failed to fetch response''))"
    by auto
  then have "handleSubmit_resume now outcome s =
           (s\<lparr>messages := messages s @
                [\<lparr>id_m = toString (now + 1), role = Assistant, content = apology, sources = None\<rparr>],
              isLoading := False\<rparr>,
            [if outcome = Rejected then NetworkFailure
             else Error (lit ''Failed to fetch response'')])"
    by (simp add: handleSubmit_resume_def errorMessage_def)
  moreover have "isLoading (fst (handleSubmit_resume now outcome s)) = False"
    by (rule resume_isLoading)
  moreover have "isLoading (fst (handleSubmit_resume now any_outcome s)) = False"
    by (rule resume_isLoading)
  ultimately show ?thesis
    by (intro conjI)
qed

theorem failure_appends_apology_witness:
  "(Resolved False JsonNull = Rejected \<or> Resolved False JsonNull = Resolved False JsonNull)
   \<and> handleSubmit_resume 1200 (Resolved False JsonNull)
        \<lparr>messages = [], input = [], isLoading = True\<rparr>
      = (\<lparr>messages = [\<lparr>id_m = lit ''1201'', role = Assistant, content = apology, sources = None\<rparr>],
          input = [], isLoading = False\<rparr>,
         [Error (lit ''Failed to fetch response'')])"
proof -
  have h: "(Resolved False JsonNull :: chat_data fetch_outcome) = Rejected
           \<or> (Resolved False JsonNull :: chat_data fetch_outcome) = Resolved False JsonNull"
    by simp
  have ids: "toString 1201 = lit ''1201''"
    by (simp add: toString_def digits.simps digit_def lit_def)
  show ?thesis
    using failure_appends_apology [OF h, of 1200 "\<lparr>messages = [], input = [], isLoading = True\<rparr>"]
    by (simp add: ids)
qed

text \<open>
  Claim C9. Message ids are meant to be unique in the list (they are the React keys of the
  rendered messages). They are clock readings: \<open>Date.now()\<close> for a user message and
  \<open>Date.now() + 1\<close> for an assistant message. In the session below the reply arrives at
  1700000000500 and the next question is submitted one millisecond later, so the
  assistant message and the second user message both get the id 1700000000501.
\<close>

theorem duplicate_message_id:
  "map id_m (messages (ui (run
      [Change (lit ''hi''), Submit 1700000000000,
       Settle 1700000000500 (Resolved True (JsonValue \<lparr>response = Some (lit ''ok''), sources_d = None\<rparr>)),
       Change (lit ''why''), Submit 1700000000501] initial)))
     = [lit ''1700000000000'', lit ''1700000000501'', lit ''1700000000501'']
   \<and> \<not> distinct (map id_m (messages (ui (run
      [Change (lit ''hi''), Submit 1700000000000,
       Settle 1700000000500 (Resolved True (JsonValue \<lparr>response = Some (lit ''ok''), sources_d = None\<rparr>)),
       Change (lit ''why''), Submit 1700000000501] initial))))"
proof -
  have tr: "trim (lit ''hi'') \<noteq> []" "trim (lit ''why'') \<noteq> []"
    by (simp_all add: trim_def lit_def is_whitespace_def)
  have ids: "toString 1700000000000 = lit ''1700000000000''"
    "toString 1700000000501 = lit ''1700000000501''"
    by (simp_all add: toString_def digits.simps digit_def lit_def)
  show ?thesis
    by (simp add: initial_def handleSubmit_begin_def handleSubmit_resume_def Let_def
        userMessage_def tr ids)
qed

section \<open>Properties of the source resolver\<close>

lemma render_card_chunk:
  "render_card (lit ''PDFchunks1'') d =
     \<lparr>label = lit ''Excerpt'', date_line = when_truthy (pdf_date d), title_attr = pdf_title d,
      heading = or_else (pdf_title d) (lit ''Untitled Document''),
      body = render_text (chunk_text d), link_href = when_truthy (pdf_url d)\<rparr>"
  by (simp add: render_card_def isChunk_def sel_title_def sel_date_def sel_content_def sel_url_def)

lemma render_card_document:
  "coll \<noteq> lit ''PDFchunks1'' \<Longrightarrow>
   render_card coll d =
     \<lparr>label = lit ''Document'', date_line = when_truthy (date d), title_attr = title d,
      heading = or_else (title d) (lit ''Untitled Document''),
      body = render_text (abstract d), link_href = when_truthy (pdf_url d)\<rparr>"
  by (simp add: render_card_def isChunk_def sel_title_def sel_date_def sel_content_def sel_url_def)

lemma render_loaded:
  "\<not> loading st \<Longrightarrow> \<not> error st \<Longrightarrow> data st = Some d \<Longrightarrow>
   render coll st = Card (render_card coll d)"
  by (simp add: render_def)

text \<open>
  Claim C2, as amended. For a loaded card the fields shown depend on the collection only
  through its comparison with \<open>PDFchunks1\<close>. If it is equal, the label is Excerpt and
  the title, the date and the body come from \<open>pdf_title\<close>, \<open>pdf_date\<close> and
  \<open>chunk_text\<close>; otherwise the label is Document and they come from \<open>title\<close>,
  \<open>date\<close> and \<open>abstract\<close>. In both cases the link comes from \<open>pdf_url\<close>, and it is
  rendered if and only if that field is present and is not the empty string.
\<close>

theorem card_fields_by_collection:
  assumes "\<not> loading st" and "\<not> error st" and "data st = Some d"
  shows "(coll = lit ''PDFchunks1'' \<longrightarrow>
            render coll st = Card
              \<lparr>label = lit ''Excerpt'', date_line = when_truthy (pdf_date d),
               title_attr = pdf_title d,
               heading = or_else (pdf_title d) (lit ''Untitled Document''),
               body = render_text (chunk_text d), link_href = when_truthy (pdf_url d)\<rparr>)
         \<and> (coll \<noteq> lit ''PDFchunks1'' \<longrightarrow>
            render coll st = Card
              \<lparr>label = lit ''Document'', date_line = when_truthy (date d),
               title_attr = title d,
               heading = or_else (title d) (lit ''Untitled Document''),
               body = render_text (abstract d), link_href = when_truthy (pdf_url d)\<rparr>)
         \<and> (link_href (render_card coll d) \<noteq> None \<longleftrightarrow> (\<exists>u. pdf_url d = Some u \<and> u \<noteq> []))
         \<and> (\<forall>u. link_href (render_card coll d) = Some u \<longrightarrow> pdf_url d = Some u)"
proof -
  have "render coll st = Card (render_card coll d)"
    using assms by (rule render_loaded)
  moreover have "link_href (render_card coll d) = when_truthy (pdf_url d)"
    by (simp add: render_card_def sel_url_def)
  ultimately show ?thesis
    by (auto simp: render_card_chunk render_card_document when_truthy_cases
        split: option.splits if_splits)
qed

theorem card_fields_by_collection_witness:
  "render (lit ''PDFchunks1'')
     \<lparr>data = Some \<lparr>title = None, date = None, abstract = None, pdf_url = None,
                    chunk_text = Some (lit ''C''), pdf_title = Some (lit ''T''),
                    pdf_date = Some (lit ''2024-01-01'')\<rparr>,
      loading = False, error = False\<rparr>
   = Card \<lparr>label = lit ''Excerpt'', date_line = Some (lit ''2024-01-01''),
           title_attr = Some (lit ''T''), heading = lit ''T'', body = lit ''C'',
           link_href = None\<rparr>
   \<and> render (lit ''PDFs'')
     \<lparr>data = Some \<lparr>title = Some (lit ''T2''), date = Some (lit ''2024-02-02''),
                    abstract = Some (lit ''A''), pdf_url = Some (lit ''http://x/a.pdf''),
                    chunk_text = None, pdf_title = None, pdf_date = None\<rparr>,
      loading = False, error = False\<rparr>
   = Card \<lparr>label = lit ''Document'', date_line = Some (lit ''2024-02-02''),
           title_attr = Some (lit ''T2''), heading = lit ''T2'', body = lit ''A'',
           link_href = Some (lit ''http://x/a.pdf'')\<rparr>"
proof -
  let ?d1 = "\<lparr>title = None, date = None, abstract = None, pdf_url = None,
              chunk_text = Some (lit ''C''), pdf_title = Some (lit ''T''),
              pdf_date = Some (lit ''2024-01-01'')\<rparr>"
  let ?d2 = "\<lparr>title = Some (lit ''T2''), date = Some (lit ''2024-02-02''),
              abstract = Some (lit ''A''), pdf_url = Some (lit ''http://x/a.pdf''),
              chunk_text = None, pdf_title = None, pdf_date = None\<rparr>"
  have ne: "lit ''PDFs'' \<noteq> lit ''PDFchunks1''"
    by (simp add: lit_def)
  have vals: "lit ''T'' \<noteq> []" "lit ''C'' \<noteq> []" "lit ''2024-01-01'' \<noteq> []"
    "lit ''T2'' \<noteq> []" "lit ''A'' \<noteq> []" "lit ''2024-02-02'' \<noteq> []" "lit ''http://x/a.pdf'' \<noteq> []"
    by (simp_all add: lit_def)
  have one: "render (lit ''PDFchunks1'') \<lparr>data = Some ?d1, loading = False, error = False\<rparr>
      = Card \<lparr>label = lit ''Excerpt'', date_line = Some (lit ''2024-01-01''),
           title_attr = Some (lit ''T''), heading = lit ''T'', body = lit ''C'',
           link_href = None\<rparr>"
    using card_fields_by_collection
      [of "\<lparr>data = Some ?d1, loading = False, error = False\<rparr>" ?d1 "lit ''PDFchunks1''"]
    by (simp add: when_truthy_cases or_else_cases render_text_def vals)
  have two: "render (lit ''PDFs'') \<lparr>data = Some ?d2, loading = False, error = False\<rparr>
      = Card \<lparr>label = lit ''Document'', date_line = Some (lit ''2024-02-02''),
           title_attr = Some (lit ''T2''), heading = lit ''T2'', body = lit ''A'',
           link_href = Some (lit ''http://x/a.pdf'')\<rparr>"
    using card_fields_by_collection
      [of "\<lparr>data = Some ?d2, loading = False, error = False\<rparr>" ?d2 "lit ''PDFs''"]
    by (simp add: when_truthy_cases or_else_cases render_text_def vals ne)
  from one two show ?thesis
    by (rule conjI)
qed

text \<open>
  The claim as written fails for a response whose \<open>pdf_url\<close> field is present and is
  the empty string: the field is there, and no link is rendered.
\<close>

theorem empty_pdf_url_counterexample:
  "pdf_url \<lparr>title = None, date = None, abstract = None, pdf_url = Some [],
            chunk_text = None, pdf_title = None, pdf_date = None\<rparr> \<noteq> None
   \<and> render (lit ''PDFchunks1'')
        \<lparr>data = Some \<lparr>title = None, date = None, abstract = None, pdf_url = Some [],
                       chunk_text = None, pdf_title = None, pdf_date = None\<rparr>,
         loading = False, error = False\<rparr>
      = Card \<lparr>label = lit ''Excerpt'', date_line = None, title_attr = None,
              heading = lit ''Untitled Document'', body = [], link_href = None\<rparr>"
  by (simp add: render_def render_card_chunk when_truthy_cases or_else_cases render_text_def)

text \<open>
  Claim C10. On a loaded card whose selected title field (\<open>pdf_title\<close> for an excerpt,
  \<open>title\<close> for a document) is absent or the empty string, the heading shows the text
  Untitled Document, which is not blank. A body field that is absent renders as the
  empty text.
\<close>

theorem untitled_heading_fallback:
  assumes "\<not> loading st" and "\<not> error st" and "data st = Some d"
    and "(if coll = lit ''PDFchunks1'' then pdf_title d else title d) \<in> {None, Some []}"
  shows "\<exists>c. render coll st = Card c
             \<and> heading c = lit ''Untitled Document''
             \<and> heading c \<noteq> []
             \<and> ((if coll = lit ''PDFchunks1'' then chunk_text d else abstract d) = None
                  \<longrightarrow> body c = [])"
proof -
  have loaded: "render coll st = Card (render_card coll d)"
    using assms(1-3) by (rule render_loaded)
  have ne: "lit ''Untitled Document'' \<noteq> []"
    by (simp add: lit_def)
  have fallback: "or_else x (lit ''Untitled Document'') = lit ''Untitled Document''"
    if "x \<in> {None, Some []}" for x
    using that by (auto simp: or_else_cases)
  have blank: "render_text x = []" if "x = None" for x
    using that by (simp add: render_text_def)
  have "heading (render_card coll d) = lit ''Untitled Document''
      \<and> heading (render_card coll d) \<noteq> []
      \<and> ((if coll = lit ''PDFchunks1'' then chunk_text d else abstract d) = None
            \<longrightarrow> body (render_card coll d) = [])"
  proof (cases "coll = lit ''PDFchunks1''")
    case True
    with assms(4) have "pdf_title d \<in> {None, Some []}"
      by simp
    then have "or_else (pdf_title d) (lit ''Untitled Document'') = lit ''Untitled Document''"
      by (rule fallback)
    with True ne show ?thesis
      by (simp add: render_card_chunk blank)
  next
    case False
    with assms(4) have "title d \<in> {None, Some []}"
      by simp
    then have "or_else (title d) (lit ''Untitled Document'') = lit ''Untitled Document''"
      by (rule fallback)
    with False ne show ?thesis
      by (simp add: render_card_document blank)
  qed
  with loaded ne show ?thesis
    by (intro exI [of _ "render_card coll d"]) simp
qed

theorem untitled_heading_fallback_witness:
  "render (lit ''PDFchunks1'')
     \<lparr>data = Some \<lparr>title = Some (lit ''ignored''), date = None, abstract = None, pdf_url = None,
                    chunk_text = None, pdf_title = Some [], pdf_date = None\<rparr>,
      loading = False, error = False\<rparr>
   = Card \<lparr>label = lit ''Excerpt'', date_line = None, title_attr = Some [],
           heading = lit ''Untitled Document'', body = [], link_href = None\<rparr>"
proof -
  let ?d = "\<lparr>title = Some (lit ''ignored''), date = None, abstract = None, pdf_url = None,
             chunk_text = None, pdf_title = Some [], pdf_date = None\<rparr>"
  let ?st = "\<lparr>data = Some ?d, loading = False, error = False\<rparr>"
  have h: "(if lit ''PDFchunks1'' = lit ''PDFchunks1'' then pdf_title ?d else title ?d)
             \<in> {None, Some []}"
    by simp
  have "\<exists>c. render (lit ''PDFchunks1'') ?st = Card c
             \<and> heading c = lit ''Untitled Document''
             \<and> heading c \<noteq> []
             \<and> ((if lit ''PDFchunks1'' = lit ''PDFchunks1'' then chunk_text ?d else abstract ?d) = None
                  \<longrightarrow> body c = [])"
    by (rule untitled_heading_fallback [of ?st ?d "lit ''PDFchunks1''"]) (simp_all add: h)
  then obtain c where c: "render (lit ''PDFchunks1'') ?st = Card c"
    "heading c = lit ''Untitled Document''" "body c = []"
    by auto
  moreover have "render (lit ''PDFchunks1'') ?st = Card (render_card (lit ''PDFchunks1'') ?d)"
    by (simp add: render_def)
  ultimately show ?thesis
    by (simp add: render_card_chunk when_truthy_cases or_else_cases render_text_def)
qed

lemma fetchSource_state:
  "fst (fetchSource outcome st) =
     (case fetchSource_try outcome of
        Inr result \<Rightarrow> st\<lparr>data := result, loading := False\<rparr>
      | Inl err \<Rightarrow> st\<lparr>error := True, loading := False\<rparr>)"
  by (simp add: fetchSource_def split: sum.splits)

lemma render_after_fetch:
  "render coll (fst (fetchSource outcome source_initial)) =
     (case outcome of
        Resolved True (JsonValue d) \<Rightarrow> Card (render_card coll d)
      | _ \<Rightarrow> Banner (lit ''Failed to load source''))"
  by (cases outcome rule: fetchSource_try.cases)
     (simp_all add: fetchSource_state render_def source_initial_def)

text \<open>
  Claim C8. A card renders exactly one of three views, decided by its state: the loading
  placeholder, the failure banner, or the loaded card. A card starts in the loading view.
  Once its request has settled it shows the banner exactly when the request failed on
  the network, came back with a status that is not a success, or delivered no result
  (the body could not be read as JSON, or was \<open>null\<close>), and the loaded card otherwise.
  Every error thrown on the way is caught: it sets the error flag and goes to the
  console, and \<open>fetchSource\<close> returns normally.
\<close>

theorem source_view_states:
  "(render coll st = Placeholder \<longleftrightarrow> loading st)
   \<and> (render coll st = Banner (lit ''Failed to load source'')
        \<longleftrightarrow> \<not> loading st \<and> (error st \<or> data st = None))
   \<and> ((\<exists>c. render coll st = Card c) \<longleftrightarrow> \<not> loading st \<and> \<not> error st \<and> data st \<noteq> None)
   \<and> render coll source_initial = Placeholder
   \<and> (render coll (fst (fetchSource outcome source_initial)) = Banner (lit ''Failed to load source'')
        \<longleftrightarrow> outcome = Rejected \<or> (\<exists>j. outcome = Resolved False j)
            \<or> outcome = Resolved True JsonReject \<or> outcome = Resolved True JsonNull)
   \<and> ((\<exists>c. render coll (fst (fetchSource outcome source_initial)) = Card c)
        \<longleftrightarrow> (\<exists>d. outcome = Resolved True (JsonValue d)))
   \<and> render coll (fst (fetchSource outcome source_initial)) \<noteq> Placeholder
   \<and> (\<forall>err. fetchSource_try outcome = Inl err \<longrightarrow>
          fetchSource outcome st = (st\<lparr>error := True, loading := False\<rparr>, [err]))"
proof -
  have by_state: "(render coll st = Placeholder \<longleftrightarrow> loading st)
      \<and> (render coll st = Banner (lit ''Failed to load source'')
           \<longleftrightarrow> \<not> loading st \<and> (error st \<or> data st = None))
      \<and> ((\<exists>c. render coll st = Card c) \<longleftrightarrow> \<not> loading st \<and> \<not> error st \<and> data st \<noteq> None)"
    by (simp add: render_def)
  have start: "render coll source_initial = Placeholder"
    by (simp add: render_def source_initial_def)
  have settled: "(render coll (fst (fetchSource outcome source_initial)) = Banner (lit ''Failed to load source'')
        \<longleftrightarrow> outcome = Rejected \<or> (\<exists>j. outcome = Resolved False j)
            \<or> outcome = Resolved True JsonReject \<or> outcome = Resolved True JsonNull)
      \<and> ((\<exists>c. render coll (fst (fetchSource outcome source_initial)) = Card c)
        \<longleftrightarrow> (\<exists>d. outcome = Resolved True (JsonValue d)))
      \<and> render coll (fst (fetchSource outcome source_initial)) \<noteq> Placeholder"
    by (cases outcome rule: fetchSource_try.cases) (simp_all add: render_after_fetch)
  have caught: "\<forall>err. fetchSource_try outcome = Inl err \<longrightarrow>
          fetchSource outcome st = (st\<lparr>error := True, loading := False\<rparr>, [err])"
    by (simp add: fetchSource_def)
  from by_state start settled caught show ?thesis
    by (intro conjI) (erule conjE | assumption)+
qed

theorem source_view_states_witness:
  "render (lit ''PDFs'') (fst (fetchSource (Resolved False JsonNull) source_initial))
     = Banner (lit ''Failed to load source'')
   \<and> fetchSource Rejected source_initial
     = (\<lparr>data = None, loading = False, error = True\<rparr>, [NetworkFailure])"
proof -
  have "render (lit ''PDFs'') (fst (fetchSource (Resolved False JsonNull) source_initial))
          = Banner (lit ''Failed to load source'')
        \<longleftrightarrow> (Resolved False JsonNull :: source_data fetch_outcome) = Rejected
            \<or> (\<exists>j. (Resolved False JsonNull :: source_data fetch_outcome) = Resolved False j)
            \<or> (Resolved False JsonNull :: source_data fetch_outcome) = Resolved True JsonReject
            \<or> (Resolved False JsonNull :: source_data fetch_outcome) = Resolved True JsonNull"
    using source_view_states [of "lit ''PDFs''" source_initial "Resolved False JsonNull"]
    by (elim conjE) assumption
  then have one: "render (lit ''PDFs'') (fst (fetchSource (Resolved False JsonNull) source_initial))
     = Banner (lit ''Failed to load source'')"
    by simp
  have "\<forall>err. fetchSource_try Rejected = Inl err \<longrightarrow>
          fetchSource Rejected source_initial
            = (source_initial\<lparr>error := True, loading := False\<rparr>, [err])"
    using source_view_states [of "lit ''PDFs''" source_initial Rejected]
    by (elim conjE) assumption
  then have two: "fetchSource Rejected source_initial
     = (\<lparr>data = None, loading = False, error = True\<rparr>, [NetworkFailure])"
    by (simp add: source_initial_def)
  from one two show ?thesis
    by (rule conjI)
qed

end
